theory Spec2Isabelle
  imports Main "HOL-Library.Multiset"
begin

section \<open>Identifiers, errors, strings and time\<close>

text \<open>
  A mongoose \<open>ObjectId\<close> is held as its hexadecimal string, which is what
  \<open>String(id)\<close> gives in the source; so \<open>String\<close> of an id is the id itself.
  A \<open>Date\<close> is its number of milliseconds since the epoch.
\<close>

type_synonym oid = string
type_synonym date = int

text \<open>
  Two functions of the mongoose/bson library are used by the source and are not part of
  the repository: \<open>mongoose.isValidObjectId(s)\<close> and the constructor
  \<open>new mongoose.Types.ObjectId(s)\<close>. They are taken as parameters, so that every
  theorem below holds whichever version of the library is installed.
\<close>

record bson =
  isValidObjectId :: "string \<Rightarrow> bool"
  ObjectId :: "string \<Rightarrow> oid"

text \<open>
  Every error of the source is a JavaScript \<open>Error\<close>; the handlers report its
  \<open>message\<close>. \<open>Error m\<close> is \<open>new Error(m)\<close> as the source throws it. The
  other constructors are the errors the libraries raise: \<open>BSONError\<close> by
  \<open>new ObjectId(s)\<close> on a malformed string, \<open>CastError\<close> by a mongoose query whose
  id cannot be cast, \<open>ValidatorError p\<close> by schema validation of path \<open>p\<close>, and
  \<open>DuplicateKey\<close> by an insert whose \<open>_id\<close> is already in the collection.
\<close>

datatype error = Error string | BSONError | CastError | ValidatorError string | DuplicateKey

text \<open>
  \<open>new mongoose.Types.ObjectId(s)\<close>: the constructor throws on the strings that
  \<open>isValidObjectId\<close> rejects, and mongoose casts the id of a query the same way.
\<close>

definition newObjectId :: "bson \<Rightarrow> string \<Rightarrow> error + oid" where
  "newObjectId B s = (if isValidObjectId B s then Inr (ObjectId B s) else Inl BSONError)"

text \<open>
  \<open>String.prototype.trim\<close>. Characters are the 8-bit characters of HOL strings; the
  white space of ECMAScript in that range is TAB, LF, VT, FF, CR, SPACE and NBSP.
\<close>

definition isWhiteSpace :: "char \<Rightarrow> bool" where
  "isWhiteSpace c = (of_char c \<in> {9, 10, 11, 12, 13, 32, 160 :: nat})"

definition trim :: "string \<Rightarrow> string" where
  "trim s = rev (dropWhile isWhiteSpace (rev (dropWhile isWhiteSpace s)))"

section \<open>The socket server\<close>

text \<open>
  \<open>AuthSocket\<close>: a socket with its id and the id of the user bound to it by the
  authentication middleware (\<open>socket.user?._id\<close>, absent when no user is bound).
\<close>

record socket =
  sock_id :: string
  sock_user :: "oid option"

text \<open>
  The socket.io server: its connected sockets by id (\<open>io.sockets.sockets\<close>) and, for
  every room name, the ids of the sockets subscribed to it.
\<close>

record server =
  io_sockets :: "string \<Rightarrow> socket option"
  io_rooms :: "string \<Rightarrow> string list"

definition socket_join :: "server \<Rightarrow> string \<Rightarrow> string \<Rightarrow> server" where
  "socket_join io sid room = io\<lparr>io_rooms := (io_rooms io)(room := List.insert sid (io_rooms io room))\<rparr>"

definition socket_leave :: "server \<Rightarrow> string \<Rightarrow> string \<Rightarrow> server" where
  "socket_leave io sid room = io\<lparr>io_rooms := (io_rooms io)(room := removeAll sid (io_rooms io room))\<rparr>"

definition chatRoom :: "string \<Rightarrow> string" where
  "chatRoom chatId = ''chat:'' @ chatId"

definition userRoom :: "string \<Rightarrow> string" where
  "userRoom userId = ''user:'' @ userId"

section \<open>The document store\<close>

text \<open>
  The three collections the source reads and writes. A collection is the list of its
  documents in insertion order. Of a user only the fields the populate calls select are
  kept. Both schemas have \<open>timestamps: true\<close>, hence \<open>createdAt\<close> and
  \<open>updatedAt\<close>.
\<close>

record user =
  u_id :: oid
  u_name :: string
  u_profilePicture :: "string option"

record chat =
  c_id :: oid
  c_name :: "string option"
  c_participants :: "oid list"
  c_lastMessage :: "oid option"
  c_lastMessageAt :: "date option"
  c_createdAt :: date
  c_updatedAt :: date

record message =
  m_id :: oid
  m_chat :: oid
  m_sender :: oid
  m_content :: string
  m_createdAt :: date
  m_updatedAt :: date

record database =
  users :: "user list"
  chats :: "chat list"
  messages :: "message list"

subsection \<open>Populated documents\<close>

text \<open>
  \<open>populate\<close> replaces a reference by the selected fields of the document it names,
  or by \<open>null\<close> when there is none. \<open>populate("sender", "name avatar")\<close> selects
  \<open>name\<close> only, since the user schema has no path \<open>avatar\<close>.
\<close>

record sender_summary =
  ss_id :: oid
  ss_name :: string
  ss_profilePicture :: "string option"

record populated_message =
  pm_id :: oid
  pm_chat :: oid
  pm_sender :: "sender_summary option"
  pm_content :: string
  pm_createdAt :: date
  pm_updatedAt :: date

record last_message =
  lm_id :: oid
  lm_content :: string
  lm_sender :: "sender_summary option"
  lm_createdAt :: date

text \<open>A chat document whose \<open>lastMessage\<close> has been populated.\<close>

type_synonym populated_chat = "chat \<times> last_message option"

definition populateSender :: "database \<Rightarrow> bool \<Rightarrow> oid \<Rightarrow> sender_summary option" where
  "populateSender db withPicture uid =
     map_option
       (\<lambda>u. \<lparr>ss_id = u_id u, ss_name = u_name u,
             ss_profilePicture = (if withPicture then u_profilePicture u else None)\<rparr>)
       (find (\<lambda>u. u_id u = uid) (users db))"

definition populateMessage :: "database \<Rightarrow> message \<Rightarrow> populated_message" where
  "populateMessage db m =
     \<lparr>pm_id = m_id m, pm_chat = m_chat m, pm_sender = populateSender db False (m_sender m),
      pm_content = m_content m, pm_createdAt = m_createdAt m, pm_updatedAt = m_updatedAt m\<rparr>"

definition populateLastMessage :: "database \<Rightarrow> chat \<Rightarrow> populated_chat" where
  "populateLastMessage db c =
     (c, case c_lastMessage c of
           None \<Rightarrow> None
         | Some mid \<Rightarrow>
             map_option
               (\<lambda>m. \<lparr>lm_id = m_id m, lm_content = m_content m,
                     lm_sender = populateSender db True (m_sender m),
                     lm_createdAt = m_createdAt m\<rparr>)
               (find (\<lambda>m. m_id m = mid) (messages db)))"

subsection \<open>Chat Entity Store (the Chat model, chat.model.ts)\<close>

text \<open>
  The \<open>userId\<close> argument of \<open>getForUser\<close> is an \<open>ObjectId\<close> or a string.
\<close>

datatype id_arg = ObjId oid | StrId string

text \<open>
  \<open>getForUser\<close>: throws on a malformed chat id; with a user id, the query also
  requires the user among the participants. An empty string is falsy, so it adds no
  requirement; any other string is cast, which throws when it is malformed.
\<close>

definition getForUser ::
  "bson \<Rightarrow> database \<Rightarrow> string \<Rightarrow> id_arg option \<Rightarrow> error + populated_chat option" where
  "getForUser B db chatId userId =
     (if \<not> isValidObjectId B chatId then Inl (Error ''Invalid chat ID format'')
      else
        let cid = ObjectId B chatId in
        case (case userId of
                None \<Rightarrow> Inr None
              | Some (ObjId u) \<Rightarrow> Inr (Some u)
              | Some (StrId s) \<Rightarrow>
                  (if s = [] then Inr None else map_sum id Some (newObjectId B s))) of
          Inl e \<Rightarrow> Inl e
        | Inr None \<Rightarrow>
            Inr (map_option (populateLastMessage db) (find (\<lambda>c. c_id c = cid) (chats db)))
        | Inr (Some u) \<Rightarrow>
            Inr (map_option (populateLastMessage db)
                   (find (\<lambda>c. c_id c = cid \<and> u \<in> set (c_participants c)) (chats db))))"

text \<open>
  \<open>Array.from(new Set(xs))\<close>: the elements of \<open>xs\<close> in the order of their first
  occurrence.
\<close>

fun fromSet :: "'a list \<Rightarrow> 'a list" where
  "fromSet [] = []"
| "fromSet (x # xs) = x # fromSet (removeAll x xs)"

text \<open>\<open>ids.map((id) => new ObjectId(id))\<close>: the first malformed id throws.\<close>

fun mapObjectId :: "bson \<Rightarrow> string list \<Rightarrow> error + oid list" where
  "mapObjectId B [] = Inr []"
| "mapObjectId B (s # ss) =
     (case newObjectId B s of
        Inl e \<Rightarrow> Inl e
      | Inr i \<Rightarrow> (case mapObjectId B ss of Inl e \<Rightarrow> Inl e | Inr is \<Rightarrow> Inr (i # is)))"

text \<open>
  \<open>Model.create\<close> on the chat collection: the new document gets the id the driver
  generates (\<open>newId\<close>) and the current time in both timestamps; the schema defaults
  \<open>lastMessage\<close> and \<open>lastMessageAt\<close> to \<open>null\<close>. The collection's unique index on
  \<open>_id\<close> refuses an id that is already there.
\<close>

definition createChatDoc ::
  "oid \<Rightarrow> date \<Rightarrow> database \<Rightarrow> string option \<Rightarrow> oid list \<Rightarrow> error + chat \<times> database" where
  "createChatDoc newId now db name ps =
     (if newId \<in> set (map c_id (chats db)) then Inl DuplicateKey
      else
        let c = \<lparr>c_id = newId, c_name = map_option trim name, c_participants = ps,
                 c_lastMessage = None, c_lastMessageAt = None,
                 c_createdAt = now, c_updatedAt = now\<rparr>
        in Inr (c, db\<lparr>chats := chats db @ [c]\<rparr>))"

text \<open>
  \<open>createPair(a, b, name)\<close>. An absent id is \<open>None\<close>. \<open>name?.trim() || null\<close> is
  \<open>null\<close> for an absent name and for one that trims to the empty string.
\<close>

definition createPair ::
  "bson \<Rightarrow> oid \<Rightarrow> date \<Rightarrow> database \<Rightarrow> oid option \<Rightarrow> oid option \<Rightarrow> string option
     \<Rightarrow> error + chat \<times> database" where
  "createPair B newId now db a b name =
     (case (a, b) of
        (Some a', Some b') \<Rightarrow>
          (case mapObjectId B (fromSet [a', b']) of
             Inl e \<Rightarrow> Inl e
           | Inr dedup \<Rightarrow>
               if length dedup < 2
               then Inl (Error ''A direct chat requires two distinct participants'')
               else createChatDoc newId now db
                      (case name of
                         None \<Rightarrow> None
                       | Some n \<Rightarrow> (if trim n = [] then None else Some (trim n)))
                      dedup)
      | _ \<Rightarrow> Inl (Error ''Both participant ids are required''))"

text \<open>
  \<open>findDirectPair(a, b)\<close>: the first chat that matches the query
  \<open>{participants: {$all: [a, b]}, $expr: {$eq: [{$size: "$participants"}, 2]}}\<close>, here
  \<open>isDirectPair a b\<close>: both ids are among the participants, and there are two of them.
\<close>

definition isDirectPair :: "oid \<Rightarrow> oid \<Rightarrow> chat \<Rightarrow> bool" where
  "isDirectPair a b c =
     (a \<in> set (c_participants c) \<and> b \<in> set (c_participants c) \<and> length (c_participants c) = 2)"

definition findDirectPair :: "database \<Rightarrow> oid option \<Rightarrow> oid option \<Rightarrow> chat option" where
  "findDirectPair db a b =
     (case (a, b) of
        (Some a', Some b') \<Rightarrow> find (isDirectPair a' b') (chats db)
      | _ \<Rightarrow> None)"

text \<open>\<open>deleteOne({_id: i})\<close>: removes the first document with that id.\<close>

fun deleteOne :: "oid \<Rightarrow> chat list \<Rightarrow> chat list" where
  "deleteOne i [] = []"
| "deleteOne i (c # cs) = (if c_id c = i then cs else c # deleteOne i cs)"

text \<open>\<open>doc.save()\<close>: writes the document over the stored one with its id.\<close>

fun saveChat :: "chat \<Rightarrow> chat list \<Rightarrow> chat list" where
  "saveChat d [] = []"
| "saveChat d (c # cs) = (if c_id c = c_id d then d # cs else c # saveChat d cs)"

datatype leave_result = Left_chat | Deleted_chat | Noop

text \<open>
  \<open>leave(chatId, userId)\<close>. \<open>findById\<close> casts the id and rejects with a
  \<open>CastError\<close> when it is malformed. \<open>now\<close> is \<open>new Date()\<close>.
\<close>

definition leave ::
  "bson \<Rightarrow> date \<Rightarrow> database \<Rightarrow> string \<Rightarrow> oid \<Rightarrow> error + leave_result \<times> database" where
  "leave B now db chatId userId =
     (if \<not> isValidObjectId B chatId then Inl CastError
      else
        case find (\<lambda>c. c_id c = ObjectId B chatId) (chats db) of
          None \<Rightarrow> Inr (Noop, db)
        | Some chat \<Rightarrow>
            let before = length (c_participants chat);
                ps = filter (\<lambda>p. p \<noteq> userId) (c_participants chat)
            in
              if length ps = 0
              then Inr (Deleted_chat, db\<lparr>chats := deleteOne (c_id chat) (chats db)\<rparr>)
              else if length ps \<noteq> before
              then Inr (Left_chat,
                        db\<lparr>chats := saveChat (chat\<lparr>c_participants := ps, c_updatedAt := now\<rparr>)
                                       (chats db)\<rparr>)
              else Inr (Noop, db))"

text \<open>
  The invariants of the data model that the operations above rely on and maintain: the
  ids of the stored chats are distinct, and the participants of a stored chat are distinct
  and not empty.
\<close>

definition storeInvariant :: "database \<Rightarrow> bool" where
  "storeInvariant db =
     (distinct (map c_id (chats db))
      \<and> (\<forall>c \<in> set (chats db). c_participants c \<noteq> [] \<and> distinct (c_participants c)))"

subsection \<open>Message Entity Store (the Message model)\<close>

text \<open>
  \<open>Chat.findByIdAndUpdate(chatId, {lastMessage, lastMessageAt})\<close>: updates the first
  chat with that id, if any; with \<open>timestamps: true\<close> mongoose also sets
  \<open>updatedAt\<close> to the time of the update.
\<close>

fun findByIdAndUpdate :: "oid \<Rightarrow> oid \<Rightarrow> date \<Rightarrow> date \<Rightarrow> chat list \<Rightarrow> chat list" where
  "findByIdAndUpdate i mid at now [] = []"
| "findByIdAndUpdate i mid at now (c # cs) =
     (if c_id c = i
      then c\<lparr>c_lastMessage := Some mid, c_lastMessageAt := Some at, c_updatedAt := now\<rparr> # cs
      else c # findByIdAndUpdate i mid at now cs)"

text \<open>
  \<open>createMessage(chatId, senderId, content)\<close>. \<open>newId\<close> is the id the driver
  generates for the message, \<open>now\<close> the time of its creation and \<open>now'\<close> the time
  of the update of the chat. The schema bounds \<open>content\<close> to 2000 characters; the
  collection's unique index on \<open>_id\<close> refuses an id that is already there.
\<close>

definition createMessage ::
  "bson \<Rightarrow> oid \<Rightarrow> date \<Rightarrow> date \<Rightarrow> database \<Rightarrow> string \<Rightarrow> string \<Rightarrow> string
     \<Rightarrow> error + message \<times> database" where
  "createMessage B newId now now' db chatId senderId content =
     (if trim content = [] then Inl (Error ''Message content cannot be empty'')
      else
        case newObjectId B chatId of
          Inl e \<Rightarrow> Inl e
        | Inr cid \<Rightarrow>
            (case newObjectId B senderId of
               Inl e \<Rightarrow> Inl e
             | Inr sid \<Rightarrow>
                 if 2000 < length (trim content) then Inl (ValidatorError ''content'')
                 else if newId \<in> set (map m_id (messages db)) then Inl DuplicateKey
                 else
                   let message = \<lparr>m_id = newId, m_chat = cid, m_sender = sid,
                                   m_content = trim content,
                                   m_createdAt = now, m_updatedAt = now\<rparr>;
                       db1 = db\<lparr>messages := messages db @ [message]\<rparr>
                   in
                     Inr (message,
                          db1\<lparr>chats := findByIdAndUpdate cid (m_id message)
                                          (m_createdAt message) now' (chats db1)\<rparr>)))"

text \<open>
  \<open>getMessagesForChat(chatId, limit = 50, before?)\<close>. \<open>limit\<close> is an integer,
  absent for the default. \<open>sort({createdAt: -1})\<close> is a sort by descending creation
  time; messages created at the same time stay in insertion order.
\<close>

definition getMessagesForChat ::
  "bson \<Rightarrow> database \<Rightarrow> string \<Rightarrow> int option \<Rightarrow> date option \<Rightarrow> error + populated_message list" where
  "getMessagesForChat B db chatId limit before =
     (if \<not> isValidObjectId B chatId then Inl (Error ''Invalid chatId format'')
      else
        let lim = (case limit of None \<Rightarrow> 50 | Some l \<Rightarrow> l);
            query = (\<lambda>m. m_chat m = ObjectId B chatId
                          \<and> (case before of None \<Rightarrow> True | Some b \<Rightarrow> m_createdAt m < b))
        in Inr (map (populateMessage db)
                  (take (nat (max 1 (min 200 lim)))
                     (sort_key (\<lambda>m. - m_createdAt m) (filter query (messages db))))))"

text \<open>\<open>getMessageById(messageId)\<close>: \<open>findById\<close> casts the string.\<close>

definition getMessageById :: "bson \<Rightarrow> database \<Rightarrow> string \<Rightarrow> error + populated_message option" where
  "getMessageById B db messageId =
     (if \<not> isValidObjectId B messageId then Inl CastError
      else Inr (map_option (populateMessage db)
                  (find (\<lambda>m. m_id m = ObjectId B messageId) (messages db))))"

section \<open>The socket handlers (socket.service.ts)\<close>

text \<open>
  What a handler emits: \<open>socket.emit\<close> to one socket, or
  \<open>io.to(room).emit\<close> to a room. An \<open>error\<close> event carries the error whose
  message it reports.
\<close>

datatype target = ToSocket string | ToRoom string

datatype event =
    ErrorEvent error
  | JoinedRoom string populated_chat
  | LeftRoom string
  | NewMessage string populated_message
  | ChatUpdated string populated_message

type_synonym emission = "target \<times> event"

text \<open>
  What a handler leaves behind: the server's subscriptions, the store, and the events it
  emitted, in order.
\<close>

record outcome =
  r_io :: server
  r_db :: database
  r_out :: "emission list"

record JoinRoomData =
  jr_chatId :: string

record SendMessageData =
  sm_chatId :: string
  sm_content :: string

definition handleJoinRoom :: "bson \<Rightarrow> server \<Rightarrow> database \<Rightarrow> socket \<Rightarrow> JoinRoomData \<Rightarrow> outcome" where
  "handleJoinRoom B io db sock data =
     (let chatId = jr_chatId data in
      if \<not> isValidObjectId B chatId
      then \<lparr>r_io = io, r_db = db,
            r_out = [(ToSocket (sock_id sock), ErrorEvent (Error ''Invalid chat ID''))]\<rparr>
      else
        case getForUser B db chatId (map_option ObjId (sock_user sock)) of
          Inl e \<Rightarrow> \<lparr>r_io = io, r_db = db, r_out = [(ToSocket (sock_id sock), ErrorEvent e)]\<rparr>
        | Inr None \<Rightarrow>
            \<lparr>r_io = io, r_db = db,
             r_out = [(ToSocket (sock_id sock),
                       ErrorEvent (Error ''Chat not found or access denied''))]\<rparr>
        | Inr (Some chat) \<Rightarrow>
            \<lparr>r_io = socket_join io (sock_id sock) (chatRoom chatId), r_db = db,
             r_out = [(ToSocket (sock_id sock), JoinedRoom chatId chat)]\<rparr>)"

definition handleLeaveRoom :: "server \<Rightarrow> database \<Rightarrow> socket \<Rightarrow> JoinRoomData \<Rightarrow> outcome" where
  "handleLeaveRoom io db sock data =
     (let chatId = jr_chatId data in
      \<lparr>r_io = socket_leave io (sock_id sock) (chatRoom chatId), r_db = db,
       r_out = [(ToSocket (sock_id sock), LeftRoom chatId)]\<rparr>)"

text \<open>
  The loop over \<open>socketsInRoom\<close>: the user ids of the sockets of the room that are
  connected and have a user, collected in the set \<open>userIdsInRoom\<close>.
\<close>

fun userIdsInRoom :: "(string \<Rightarrow> socket option) \<Rightarrow> string list \<Rightarrow> oid list \<Rightarrow> oid list" where
  "userIdsInRoom socks [] acc = acc"
| "userIdsInRoom socks (sid # sids) acc =
     (case socks sid of
        None \<Rightarrow> userIdsInRoom socks sids acc
      | Some s \<Rightarrow>
          (case sock_user s of
             None \<Rightarrow> userIdsInRoom socks sids acc
           | Some u \<Rightarrow> userIdsInRoom socks sids (List.insert u acc)))"

text \<open>\<open>String(socket.user?._id)\<close>: the string \<open>undefined\<close> when no user is bound.\<close>

definition senderString :: "socket \<Rightarrow> string" where
  "senderString sock = (case sock_user sock of None \<Rightarrow> ''undefined'' | Some u \<Rightarrow> u)"

text \<open>
  The handler suspends at every \<open>await\<close>, where other handlers and other clients of
  the store run. \<open>afterLookup\<close> is what they did to the store between the membership
  lookup and the write, \<open>afterWrite\<close> between the write and the re-fetch; both are
  the identity when nothing else ran. \<open>io\<close> is the server as it is when the sockets
  of the room are read.
\<close>

record interleaving =
  afterLookup :: "database \<Rightarrow> database"
  afterWrite :: "database \<Rightarrow> database"

definition handleSendMessage ::
  "bson \<Rightarrow> oid \<Rightarrow> date \<Rightarrow> date \<Rightarrow> interleaving \<Rightarrow> server \<Rightarrow> database \<Rightarrow> socket
     \<Rightarrow> SendMessageData \<Rightarrow> outcome" where
  "handleSendMessage B newId now now' env io db sock data =
     (let chatId = sm_chatId data; content = sm_content data in
      if \<not> isValidObjectId B chatId
      then \<lparr>r_io = io, r_db = db,
            r_out = [(ToSocket (sock_id sock), ErrorEvent (Error ''Invalid chat ID''))]\<rparr>
      else if content = [] \<or> length (trim content) = 0
      then \<lparr>r_io = io, r_db = db,
            r_out = [(ToSocket (sock_id sock),
                      ErrorEvent (Error ''Message content is required''))]\<rparr>
      else
        case getForUser B db chatId (map_option ObjId (sock_user sock)) of
          Inl e \<Rightarrow> \<lparr>r_io = io, r_db = db, r_out = [(ToSocket (sock_id sock), ErrorEvent e)]\<rparr>
        | Inr None \<Rightarrow>
            \<lparr>r_io = io, r_db = db,
             r_out = [(ToSocket (sock_id sock),
                       ErrorEvent (Error ''Chat not found or access denied''))]\<rparr>
        | Inr (Some chat) \<Rightarrow>
            let db0 = afterLookup env db in
            (case createMessage B newId now now' db0 chatId (senderString sock) (trim content) of
               Inl e \<Rightarrow>
                 \<lparr>r_io = io, r_db = db0, r_out = [(ToSocket (sock_id sock), ErrorEvent e)]\<rparr>
             | Inr (message, db1) \<Rightarrow>
                 let db2 = afterWrite env db1 in
                 (case getMessageById B db2 (m_id message) of
                    Inl e \<Rightarrow>
                      \<lparr>r_io = io, r_db = db2,
                       r_out = [(ToSocket (sock_id sock), ErrorEvent e)]\<rparr>
                  | Inr None \<Rightarrow>
                      \<lparr>r_io = io, r_db = db2,
                       r_out = [(ToSocket (sock_id sock),
                                 ErrorEvent (Error ''Failed to retrieve created message''))]\<rparr>
                  | Inr (Some populatedMessage) \<Rightarrow>
                      let inRoom = userIdsInRoom (io_sockets io) (io_rooms io (chatRoom chatId)) [];
                          otherParticipants =
                            filter (\<lambda>p. p \<noteq> senderString sock) (c_participants (fst chat))
                      in
                        \<lparr>r_io = io, r_db = db2,
                         r_out =
                           (ToRoom (chatRoom chatId), NewMessage chatId populatedMessage)
                           # map (\<lambda>p. (ToRoom (userRoom p), ChatUpdated chatId populatedMessage))
                               (filter (\<lambda>p. p \<notin> set inRoom) otherParticipants)\<rparr>)))"

section \<open>The chat controller (createChat)\<close>

text \<open>
  \<open>res.status(n).json(body)\<close>: the status and either \<open>{error: message}\<close> or a chat.
\<close>

datatype body = ErrorBody error | ChatBody chat

record response =
  res_status :: nat
  res_body :: body

text \<open>\<open>String(peerId)\<close> and \<open>asObjectId(peerId)\<close> of an id that is an
  \<open>ObjectId\<close> or a string.\<close>

definition idString :: "id_arg \<Rightarrow> string" where
  "idString v = (case v of ObjId i \<Rightarrow> i | StrId s \<Rightarrow> s)"

definition asObjectId :: "bson \<Rightarrow> id_arg \<Rightarrow> error + oid" where
  "asObjectId B v = (case v of ObjId i \<Rightarrow> Inr i | StrId s \<Rightarrow> newObjectId B s)"

text \<open>
  \<open>createChat\<close>, the caller of \<open>findDirectPair\<close> and \<open>createPair\<close>: \<open>user\<close> is
  \<open>req.user?._id\<close>, \<open>peerId\<close> and \<open>name\<close> are the fields of the request body.
  \<open>afterLookup env\<close> is what other requests did to the store between the find and the
  create. Every error thrown is answered with status 500.
\<close>

definition createChat ::
  "bson \<Rightarrow> oid \<Rightarrow> date \<Rightarrow> interleaving \<Rightarrow> database \<Rightarrow> oid option \<Rightarrow> id_arg option
     \<Rightarrow> string option \<Rightarrow> response \<times> database" where
  "createChat B newId now env db user peerId name =
     (case user of
        None \<Rightarrow> (\<lparr>res_status = 401, res_body = ErrorBody (Error ''Unauthorized'')\<rparr>, db)
      | Some uid \<Rightarrow>
          (case peerId of
             None \<Rightarrow>
               (\<lparr>res_status = 400,
                 res_body = ErrorBody (Error ''peerId is required and must be a valid ObjectId'')\<rparr>,
                db)
           | Some peer \<Rightarrow>
               if peer = StrId [] \<or> (case peer of StrId s \<Rightarrow> \<not> isValidObjectId B s | ObjId i \<Rightarrow> False)
               then (\<lparr>res_status = 400,
                      res_body = ErrorBody (Error ''peerId is required and must be a valid ObjectId'')\<rparr>,
                     db)
               else if idString peer = uid
               then (\<lparr>res_status = 400,
                      res_body = ErrorBody (Error ''Cannot create a direct chat with yourself'')\<rparr>,
                     db)
               else
                 (case asObjectId B peer of
                    Inl e \<Rightarrow> (\<lparr>res_status = 500, res_body = ErrorBody e\<rparr>, db)
                  | Inr pid \<Rightarrow>
                      (case findDirectPair db (Some uid) (Some pid) of
                         Some existing \<Rightarrow> (\<lparr>res_status = 200, res_body = ChatBody existing\<rparr>, db)
                       | None \<Rightarrow>
                           let db0 = afterLookup env db in
                           (case createPair B newId now db0 (Some uid) (Some pid) name of
                              Inl e \<Rightarrow> (\<lparr>res_status = 500, res_body = ErrorBody e\<rparr>, db0)
                            | Inr (chat, db') \<Rightarrow>
                                (\<lparr>res_status = 201, res_body = ChatBody chat\<rparr>, db'))))))"

section \<open>A concrete library and sample documents\<close>

text \<open>
  An instance of the library functions, as bson 6 has them: a string is a valid id when
  it is 24 hexadecimal digits, and the id's hexadecimal string is in lower case. It is
  used to run the model on concrete inputs.
\<close>

definition isHexDigit :: "char \<Rightarrow> bool" where
  "isHexDigit c = (c \<in> set ''0123456789abcdefABCDEF'')"

definition toLowerHex :: "char \<Rightarrow> char" where
  "toLowerHex c =
     (if c = CHR ''A'' then CHR ''a'' else if c = CHR ''B'' then CHR ''b''
      else if c = CHR ''C'' then CHR ''c'' else if c = CHR ''D'' then CHR ''d''
      else if c = CHR ''E'' then CHR ''e'' else if c = CHR ''F'' then CHR ''f'' else c)"

definition hexBson :: bson where
  "hexBson = \<lparr>isValidObjectId = (\<lambda>s. length s = 24 \<and> list_all isHexDigit s),
              ObjectId = map toLowerHex\<rparr>"

text \<open>Three users, a chat, two message ids and a second chat id.\<close>

definition idU1 :: oid where "idU1 = ''aaaaaaaaaaaaaaaaaaaaaaa1''"
definition idU2 :: oid where "idU2 = ''aaaaaaaaaaaaaaaaaaaaaaa2''"
definition idU3 :: oid where "idU3 = ''aaaaaaaaaaaaaaaaaaaaaaa3''"
definition idC :: oid where "idC = ''cccccccccccccccccccccc01''"
definition idD :: oid where "idD = ''cccccccccccccccccccccc02''"
definition idM :: oid where "idM = ''eeeeeeeeeeeeeeeeeeeeee01''"
definition idN :: oid where "idN = ''eeeeeeeeeeeeeeeeeeeeee02''"

definition sockS1 :: socket where "sockS1 = \<lparr>sock_id = ''s1'', sock_user = Some idU1\<rparr>"
definition sockS2 :: socket where "sockS2 = \<lparr>sock_id = ''s2'', sock_user = Some idU2\<rparr>"
definition sockS3 :: socket where "sockS3 = \<lparr>sock_id = ''s3'', sock_user = Some idU3\<rparr>"

text \<open>
  Three connected sockets, each subscribed to the personal room of its user and to no
  chat room.
\<close>

definition io0 :: server where
  "io0 = \<lparr>io_sockets = [''s1'' \<mapsto> sockS1, ''s2'' \<mapsto> sockS2, ''s3'' \<mapsto> sockS3],
          io_rooms = (\<lambda>r. if r = userRoom idU1 then [''s1'']
                           else if r = userRoom idU2 then [''s2'']
                           else if r = userRoom idU3 then [''s3''] else [])\<rparr>"

definition chatC :: chat where
  "chatC = \<lparr>c_id = idC, c_name = None, c_participants = [idU1, idU2],
            c_lastMessage = None, c_lastMessageAt = None, c_createdAt = 100, c_updatedAt = 100\<rparr>"

definition db0 :: database where
  "db0 = \<lparr>users = [\<lparr>u_id = idU1, u_name = ''Ann'', u_profilePicture = None\<rparr>,
                   \<lparr>u_id = idU2, u_name = ''Bob'', u_profilePicture = None\<rparr>,
                   \<lparr>u_id = idU3, u_name = ''Cy'', u_profilePicture = None\<rparr>],
          chats = [chatC], messages = []\<rparr>"

text \<open>The message \<open>hello\<close> of the first user in the chat, and the store after it.\<close>

definition msgM :: message where
  "msgM = \<lparr>m_id = idM, m_chat = idC, m_sender = idU1, m_content = ''hello'',
           m_createdAt = 1000, m_updatedAt = 1000\<rparr>"

definition db1 :: database where
  "db1 = db0\<lparr>chats := [chatC\<lparr>c_lastMessage := Some idM, c_lastMessageAt := Some 1000,
                             c_updatedAt := 1001\<rparr>],
             messages := [msgM]\<rparr>"

text \<open>The first socket has joined the chat's room.\<close>

definition io1 :: server where
  "io1 = socket_join io0 ''s1'' (chatRoom idC)"

text \<open>The message as \<open>getMessageById\<close> returns it.\<close>

definition pmM :: populated_message where
  "pmM = \<lparr>pm_id = idM, pm_chat = idC,
          pm_sender = Some \<lparr>ss_id = idU1, ss_name = ''Ann'', ss_profilePicture = None\<rparr>,
          pm_content = ''hello'', pm_createdAt = 1000, pm_updatedAt = 1000\<rparr>"

text \<open>Nothing else runs while the handler is suspended.\<close>

definition env0 :: interleaving where
  "env0 = \<lparr>afterLookup = id, afterWrite = id\<rparr>"

definition dataHello :: SendMessageData where
  "dataHello = \<lparr>sm_chatId = idC, sm_content = ''hello''\<rparr>"

text \<open>A second chat of the same two users, and one of the first and the third user.\<close>

definition chatD :: chat where
  "chatD = \<lparr>c_id = idD, c_name = None, c_participants = [idU1, idU2],
            c_lastMessage = None, c_lastMessageAt = None, c_createdAt = 200, c_updatedAt = 200\<rparr>"

definition chatE :: chat where
  "chatE = \<lparr>c_id = idD, c_name = None, c_participants = [idU1, idU3],
            c_lastMessage = None, c_lastMessageAt = None, c_createdAt = 200, c_updatedAt = 200\<rparr>"

text \<open>The store after the first user has left the sample chat.\<close>

definition dbL :: database where
  "dbL = db0\<lparr>chats := [chatC\<lparr>c_participants := [idU2], c_updatedAt := 2000\<rparr>]\<rparr>"

text \<open>
  A store with three messages in the sample chat, created at times 10, 30 and 20, and one
  message in another chat.
\<close>

definition idP :: oid where "idP = ''eeeeeeeeeeeeeeeeeeeeee03''"
definition idQ :: oid where "idQ = ''eeeeeeeeeeeeeeeeeeeeee04''"

definition sampleMessage :: "oid \<Rightarrow> oid \<Rightarrow> date \<Rightarrow> message" where
  "sampleMessage i c t = \<lparr>m_id = i, m_chat = c, m_sender = idU1, m_content = ''x'',
                          m_createdAt = t, m_updatedAt = t\<rparr>"

definition dbP :: database where
  "dbP = db0\<lparr>messages := [sampleMessage idM idC 10, sampleMessage idN idC 30,
                           sampleMessage idP idC 20, sampleMessage idQ idD 40]\<rparr>"

section \<open>Properties\<close>

subsection \<open>The sample data\<close>

lemma valid_ids:
  "isValidObjectId hexBson idU1" "isValidObjectId hexBson idU2" "isValidObjectId hexBson idU3"
  "isValidObjectId hexBson idC" "isValidObjectId hexBson idD"
  "isValidObjectId hexBson idM" "isValidObjectId hexBson idN"
  by (simp_all add: hexBson_def isHexDigit_def idU1_def idU2_def idU3_def idC_def idD_def
      idM_def idN_def)

lemma cast_ids:
  "ObjectId hexBson idU1 = idU1" "ObjectId hexBson idU2 = idU2" "ObjectId hexBson idU3 = idU3"
  "ObjectId hexBson idC = idC" "ObjectId hexBson idD = idD"
  "ObjectId hexBson idM = idM" "ObjectId hexBson idN = idN"
  by (simp_all add: hexBson_def toLowerHex_def idU1_def idU2_def idU3_def idC_def idD_def
      idM_def idN_def)

lemma ids_neq:
  "idU1 \<noteq> idU2" "idU2 \<noteq> idU1" "idU1 \<noteq> idU3" "idU3 \<noteq> idU1" "idU2 \<noteq> idU3" "idU3 \<noteq> idU2"
  "idC \<noteq> idM" "idM \<noteq> idC" "idC \<noteq> idD" "idD \<noteq> idC" "idM \<noteq> idN" "idN \<noteq> idM"
  by (simp_all add: idU1_def idU2_def idU3_def idC_def idD_def idM_def idN_def)

lemma invalid_not_an_id: "\<not> isValidObjectId hexBson ''not-an-id''"
  by (simp add: hexBson_def)

lemma trim_samples: "trim ''hello'' = ''hello''" "trim ''hi'' = ''hi''" "trim ''  '' = []"
  by (simp_all add: trim_def isWhiteSpace_def)

lemma room_neq: "userRoom a \<noteq> chatRoom b"
  by (simp add: userRoom_def chatRoom_def)

lemma getForUser_C_U1:
  "getForUser hexBson db0 idC (Some (ObjId idU1)) = Inr (Some (chatC, None))"
  by (simp add: getForUser_def valid_ids cast_ids db0_def chatC_def populateLastMessage_def)

lemma createMessage_M:
  "createMessage hexBson idM 1000 1001 db0 idC idU1 ''hello'' = Inr (msgM, db1)"
  by (simp add: createMessage_def newObjectId_def valid_ids cast_ids trim_samples db0_def db1_def
      msgM_def chatC_def Let_def)

subsection \<open>Leaving a room\<close>

text \<open>
  C9: \<open>leaveRoom\<close> is idempotent. Whatever the server's subscriptions are, the handler
  emits the one \<open>left_room\<close> confirmation to the calling socket and no error event;
  a second call emits the same event and leaves the subscriptions as the first call left
  them; and for a socket that is not subscribed to the room the call changes nothing and
  emits that same confirmation.
\<close>

theorem leaveRoom_idempotent:
  "r_out (handleLeaveRoom io db sock data) = [(ToSocket (sock_id sock), LeftRoom (jr_chatId data))]
   \<and> r_out (handleLeaveRoom (r_io (handleLeaveRoom io db sock data)) db sock data)
       = r_out (handleLeaveRoom io db sock data)
   \<and> r_io (handleLeaveRoom (r_io (handleLeaveRoom io db sock data)) db sock data)
       = r_io (handleLeaveRoom io db sock data)
   \<and> (sock_id sock \<notin> set (io_rooms io (chatRoom (jr_chatId data)))
        \<longrightarrow> handleLeaveRoom io db sock data
              = \<lparr>r_io = io, r_db = db,
                 r_out = [(ToSocket (sock_id sock), LeftRoom (jr_chatId data))]\<rparr>)"
  by (simp add: handleLeaveRoom_def Let_def socket_leave_def)

text \<open>The first socket, which never joined the chat's room, leaves it.\<close>

theorem leaveRoom_idempotent_witness:
  "sock_id sockS1 \<notin> set (io_rooms io0 (chatRoom idC))
   \<and> handleLeaveRoom io0 db0 sockS1 \<lparr>jr_chatId = idC\<rparr>
       = \<lparr>r_io = io0, r_db = db0, r_out = [(ToSocket ''s1'', LeftRoom idC)]\<rparr>"
proof -
  have h: "sock_id sockS1 \<notin> set (io_rooms io0 (chatRoom idC))"
    by (simp add: io0_def room_neq [symmetric])
  show ?thesis
    using h leaveRoom_idempotent [where sock = sockS1 and io = io0
        and data = "\<lparr>jr_chatId = idC\<rparr>" and db = db0]
    by (simp add: sockS1_def)
qed

text \<open>
  C10: \<open>leaveRoom\<close> validates nothing. For every string \<open>chatId\<close>, every server and
  every store (so also for a malformed id, and for a chat the socket never joined or whose
  participants do not include its user) the handler unsubscribes the socket from the room
  of that name and emits \<open>left_room\<close> with that \<open>chatId\<close> to it; it emits no error
  event.
\<close>

theorem leaveRoom_no_validation:
  "handleLeaveRoom io db sock \<lparr>jr_chatId = chatId\<rparr>
     = \<lparr>r_io = socket_leave io (sock_id sock) (chatRoom chatId), r_db = db,
        r_out = [(ToSocket (sock_id sock), LeftRoom chatId)]\<rparr>
   \<and> (\<forall>t e. (t, ErrorEvent e) \<notin> set (r_out (handleLeaveRoom io db sock \<lparr>jr_chatId = chatId\<rparr>)))"
  by (simp add: handleLeaveRoom_def Let_def)

text \<open>A malformed id is confirmed like any other.\<close>

theorem leaveRoom_no_validation_witness:
  "\<not> isValidObjectId hexBson ''not-an-id''
   \<and> r_out (handleLeaveRoom io0 db0 sockS1 \<lparr>jr_chatId = ''not-an-id''\<rparr>)
       = [(ToSocket ''s1'', LeftRoom ''not-an-id'')]"
  using leaveRoom_no_validation [of io0 db0 sockS1 "''not-an-id''"] invalid_not_an_id
  by (simp add: sockS1_def)

subsection \<open>Rejected sends\<close>

lemma trim_Nil: "trim [] = []"
  by (simp add: trim_def)

text \<open>
  C2: a \<open>sendMessage\<close> whose \<open>chatId\<close> is malformed, or whose \<open>content\<close> trims to
  the empty string, emits exactly one event, a validation error to the sending socket
  (\<open>Invalid chat ID\<close>, else \<open>Message content is required\<close>); the store is left as it
  was, so no message is persisted, and neither \<open>new_message\<close> nor \<open>chat_updated\<close>
  is emitted.
\<close>

theorem sendMessage_rejects_invalid:
  assumes "\<not> isValidObjectId B (sm_chatId data) \<or> trim (sm_content data) = []"
  shows "handleSendMessage B newId now now' env io db sock data
           = \<lparr>r_io = io, r_db = db,
              r_out = [(ToSocket (sock_id sock),
                        ErrorEvent (Error (if \<not> isValidObjectId B (sm_chatId data)
                                           then ''Invalid chat ID''
                                           else ''Message content is required'')))]\<rparr>"
  using assms by (auto simp add: handleSendMessage_def Let_def trim_Nil)

text \<open>The send of \<open>hi\<close> to \<open>not-an-id\<close>, and a send of blanks to the chat.\<close>

theorem sendMessage_rejects_invalid_witness:
  "handleSendMessage hexBson idM 1000 1001 \<lparr>afterLookup = id, afterWrite = id\<rparr> io0 db0 sockS1
      \<lparr>sm_chatId = ''not-an-id'', sm_content = ''hi''\<rparr>
     = \<lparr>r_io = io0, r_db = db0,
        r_out = [(ToSocket ''s1'', ErrorEvent (Error ''Invalid chat ID''))]\<rparr>
   \<and> handleSendMessage hexBson idM 1000 1001 \<lparr>afterLookup = id, afterWrite = id\<rparr> io0 db0 sockS1
      \<lparr>sm_chatId = idC, sm_content = ''  ''\<rparr>
     = \<lparr>r_io = io0, r_db = db0,
        r_out = [(ToSocket ''s1'', ErrorEvent (Error ''Message content is required''))]\<rparr>"
  using sendMessage_rejects_invalid [of hexBson "\<lparr>sm_chatId = ''not-an-id'', sm_content = ''hi''\<rparr>"
          idM 1000 1001 "\<lparr>afterLookup = id, afterWrite = id\<rparr>" io0 db0 sockS1]
        sendMessage_rejects_invalid [of hexBson "\<lparr>sm_chatId = idC, sm_content = ''  ''\<rparr>"
          idM 1000 1001 "\<lparr>afterLookup = id, afterWrite = id\<rparr>" io0 db0 sockS1]
        invalid_not_an_id valid_ids(4) trim_samples(3)
  by (simp add: sockS1_def)

text \<open>
  C4: when a send has passed validation and the membership lookup, the message has been
  written, and the re-fetch of the written message returns nothing, the handler emits
  exactly one event, the error \<open>Failed to retrieve created message\<close> to the sending
  socket: no \<open>new_message\<close> and no \<open>chat_updated\<close> is emitted, and the server's
  sockets and subscriptions are as they were.
\<close>

theorem sendMessage_refetch_failure:
  assumes "isValidObjectId B (sm_chatId data)"
      and "trim (sm_content data) \<noteq> []"
      and "getForUser B db (sm_chatId data) (map_option ObjId (sock_user sock)) = Inr (Some chat)"
      and "createMessage B newId now now' (afterLookup env db) (sm_chatId data)
             (senderString sock) (trim (sm_content data)) = Inr (m, db')"
      and "getMessageById B (afterWrite env db') (m_id m) = Inr None"
  shows "handleSendMessage B newId now now' env io db sock data
           = \<lparr>r_io = io, r_db = afterWrite env db',
              r_out = [(ToSocket (sock_id sock),
                        ErrorEvent (Error ''Failed to retrieve created message''))]\<rparr>"
  using assms by (auto simp add: handleSendMessage_def Let_def trim_Nil)

text \<open>
  Another client of the store removes the messages between the write and the re-fetch.
\<close>

theorem sendMessage_refetch_failure_witness:
  "handleSendMessage hexBson idM 1000 1001
      \<lparr>afterLookup = id, afterWrite = (\<lambda>d. d\<lparr>messages := []\<rparr>)\<rparr> io0 db0 sockS1
      \<lparr>sm_chatId = idC, sm_content = ''hello''\<rparr>
     = \<lparr>r_io = io0, r_db = db1\<lparr>messages := []\<rparr>,
        r_out = [(ToSocket ''s1'', ErrorEvent (Error ''Failed to retrieve created message''))]\<rparr>"
proof -
  let ?env = "\<lparr>afterLookup = id, afterWrite = (\<lambda>d. d\<lparr>messages := []\<rparr>)\<rparr>"
  let ?data = "\<lparr>sm_chatId = idC, sm_content = ''hello''\<rparr>"
  have h1: "isValidObjectId hexBson (sm_chatId ?data)"
    by (simp add: valid_ids)
  have h2: "trim (sm_content ?data) \<noteq> []"
    by (simp add: trim_samples)
  have h3: "getForUser hexBson db0 (sm_chatId ?data) (map_option ObjId (sock_user sockS1))
              = Inr (Some (chatC, None))"
    by (simp add: sockS1_def getForUser_C_U1)
  have h4: "createMessage hexBson idM 1000 1001 (afterLookup ?env db0) (sm_chatId ?data)
              (senderString sockS1) (trim (sm_content ?data)) = Inr (msgM, db1)"
    by (simp add: senderString_def sockS1_def trim_samples createMessage_M)
  have h5: "getMessageById hexBson (afterWrite ?env db1) (m_id msgM) = Inr None"
    by (simp add: getMessageById_def msgM_def valid_ids)
  show ?thesis
    using sendMessage_refetch_failure [OF h1 h2 h3 h4 h5, of io0]
    by (simp add: sockS1_def)
qed

subsection \<open>Joining a room\<close>

text \<open>
  C5: a \<open>joinRoom\<close> with a well-formed \<open>chatId\<close> by a socket bound to user \<open>u\<close>,
  when no chat with that id has \<open>u\<close> among its participants (there is no such chat, or
  \<open>u\<close> is not a participant of it), emits exactly one event, the error
  \<open>Chat not found or access denied\<close> to that socket, and leaves every subscription as it
  was: the socket is not subscribed to the chat's room.
\<close>

theorem joinRoom_denied:
  assumes "isValidObjectId B (jr_chatId data)"
      and "sock_user sock = Some u"
      and "\<forall>c \<in> set (chats db). c_id c = ObjectId B (jr_chatId data) \<longrightarrow> u \<notin> set (c_participants c)"
  shows "handleJoinRoom B io db sock data
           = \<lparr>r_io = io, r_db = db,
              r_out = [(ToSocket (sock_id sock),
                        ErrorEvent (Error ''Chat not found or access denied''))]\<rparr>"
proof -
  have "find (\<lambda>c. c_id c = ObjectId B (jr_chatId data) \<and> u \<in> set (c_participants c)) (chats db)
          = None"
    using assms(3) by (auto simp add: find_None_iff)
  then show ?thesis
    using assms(1,2) by (simp add: handleJoinRoom_def Let_def getForUser_def)
qed

text \<open>
  The third user, who is not a participant of the chat, asks to join it, and then a chat
  that does not exist.
\<close>

theorem joinRoom_denied_witness:
  "handleJoinRoom hexBson io0 db0 sockS3 \<lparr>jr_chatId = idC\<rparr>
     = \<lparr>r_io = io0, r_db = db0,
        r_out = [(ToSocket ''s3'', ErrorEvent (Error ''Chat not found or access denied''))]\<rparr>
   \<and> handleJoinRoom hexBson io0 db0 sockS3 \<lparr>jr_chatId = idD\<rparr>
     = \<lparr>r_io = io0, r_db = db0,
        r_out = [(ToSocket ''s3'', ErrorEvent (Error ''Chat not found or access denied''))]\<rparr>"
proof -
  have h1: "isValidObjectId hexBson (jr_chatId \<lparr>jr_chatId = idC\<rparr>)"
    and h1': "isValidObjectId hexBson (jr_chatId \<lparr>jr_chatId = idD\<rparr>)"
    by (simp_all add: valid_ids)
  have h2: "sock_user sockS3 = Some idU3"
    by (simp add: sockS3_def)
  have h3: "\<forall>c \<in> set (chats db0). c_id c = ObjectId hexBson (jr_chatId \<lparr>jr_chatId = idC\<rparr>)
              \<longrightarrow> idU3 \<notin> set (c_participants c)"
    by (simp add: db0_def chatC_def ids_neq)
  have h3': "\<forall>c \<in> set (chats db0). c_id c = ObjectId hexBson (jr_chatId \<lparr>jr_chatId = idD\<rparr>)
              \<longrightarrow> idU3 \<notin> set (c_participants c)"
    by (simp add: db0_def chatC_def cast_ids ids_neq)
  show ?thesis
    using joinRoom_denied [OF h1 h2 h3, of io0] joinRoom_denied [OF h1' h2 h3', of io0]
    by (simp add: sockS3_def)
qed

subsection \<open>Fan-out of a sent message\<close>

text \<open>
  The set \<open>userIdsInRoom\<close> that the loop builds holds the users of the connected
  sockets of the room.
\<close>

lemma userIdsInRoom_set:
  "set (userIdsInRoom socks sids acc)
     = set acc \<union> {u. \<exists>sid \<in> set sids. \<exists>s. socks sid = Some s \<and> sock_user s = Some u}"
  by (induction socks sids acc rule: userIdsInRoom.induct) (auto split: option.splits)

lemma userRoom_eq: "userRoom a = userRoom b \<longleftrightarrow> a = b"
  by (simp add: userRoom_def)

lemma getMessageById_M: "getMessageById hexBson db1 idM = Inr (Some pmM)"
  by (simp add: getMessageById_def valid_ids cast_ids db1_def db0_def msgM_def pmM_def
      populateMessage_def populateSender_def)

lemma inRoom_io0: "userIdsInRoom (io_sockets io0) (io_rooms io0 (chatRoom idC)) [] = []"
  by (simp add: io0_def room_neq [symmetric])

lemma inRoom_io1: "userIdsInRoom (io_sockets io1) (io_rooms io1 (chatRoom idC)) [] = [idU1]"
  by (simp add: io1_def socket_join_def io0_def room_neq [symmetric] sockS1_def)

lemma send_hello_io0:
  "handleSendMessage hexBson idM 1000 1001 env0 io0 db0 sockS1 dataHello
     = \<lparr>r_io = io0, r_db = db1,
        r_out = [(ToRoom (chatRoom idC), NewMessage idC pmM),
                 (ToRoom (userRoom idU2), ChatUpdated idC pmM)]\<rparr>"
  by (simp add: handleSendMessage_def dataHello_def env0_def valid_ids trim_samples
      sockS1_def senderString_def getForUser_C_U1 createMessage_M getMessageById_M
      msgM_def inRoom_io0 chatC_def ids_neq)

lemma send_hello_io1:
  "handleSendMessage hexBson idM 1000 1001 env0 io1 db0 sockS1 dataHello
     = \<lparr>r_io = io1, r_db = db1,
        r_out = [(ToRoom (chatRoom idC), NewMessage idC pmM),
                 (ToRoom (userRoom idU2), ChatUpdated idC pmM)]\<rparr>"
  by (simp add: handleSendMessage_def dataHello_def env0_def valid_ids trim_samples
      sockS1_def senderString_def getForUser_C_U1 createMessage_M getMessageById_M
      msgM_def inRoom_io1 chatC_def ids_neq)

text \<open>
  C1, as the claim states it, fails: the first user is a participant of the chat, none of
  that user's sockets is subscribed to the chat's room, the user sends \<open>hello\<close>, the
  send succeeds (\<open>new_message\<close> is broadcast), and no \<open>chat_updated\<close> is emitted to
  the sender's personal room.
\<close>

theorem sendMessage_sender_not_notified:
  "sock_user sockS1 = Some idU1
   \<and> getForUser hexBson db0 idC (Some (ObjId idU1)) = Inr (Some (chatC, None))
   \<and> idU1 \<in> set (c_participants chatC)
   \<and> idU1 \<notin> set (userIdsInRoom (io_sockets io0) (io_rooms io0 (chatRoom idC)) [])
   \<and> (ToRoom (chatRoom idC), NewMessage idC pmM)
        \<in> set (r_out (handleSendMessage hexBson idM 1000 1001 env0 io0 db0 sockS1 dataHello))
   \<and> (ToRoom (userRoom idU1), ChatUpdated idC pmM)
        \<notin> set (r_out (handleSendMessage hexBson idM 1000 1001 env0 io0 db0 sockS1 dataHello))"
proof -
  have "sock_user sockS1 = Some idU1"
    by (simp add: sockS1_def)
  moreover have "idU1 \<in> set (c_participants chatC)"
    by (simp add: chatC_def)
  ultimately show ?thesis
    by (simp add: send_hello_io0 inRoom_io0 getForUser_C_U1 userRoom_eq ids_neq)
qed

text \<open>
  C1, amended: for every successful \<open>sendMessage\<close> (one that broadcasts
  \<open>new_message\<close> with the re-fetched, populated message \<open>pm\<close>), and for every
  participant of the chat \<^emph>\<open>other than the sender\<close> whose id is not among the users of
  the sockets subscribed to the chat's room when the room is read, a \<open>chat_updated\<close>
  event carrying the chat id and \<open>pm\<close> is emitted to that participant's personal room.
  The sender is filtered out of the participants to notify, so no \<open>chat_updated\<close> is
  emitted to the sender's own personal room.
\<close>

theorem sendMessage_notifies_absent_others:
  assumes "(ToRoom (chatRoom (sm_chatId data)), NewMessage (sm_chatId data) pm)
             \<in> set (r_out (handleSendMessage B newId now now' env io db sock data))"
  shows "\<exists>chat m db'.
           getForUser B db (sm_chatId data) (map_option ObjId (sock_user sock)) = Inr (Some chat)
         \<and> createMessage B newId now now' (afterLookup env db) (sm_chatId data)
              (senderString sock) (trim (sm_content data)) = Inr (m, db')
         \<and> getMessageById B (afterWrite env db') (m_id m) = Inr (Some pm)
         \<and> (\<forall>p \<in> set (c_participants (fst chat)).
               p \<noteq> senderString sock
               \<and> p \<notin> set (userIdsInRoom (io_sockets io) (io_rooms io (chatRoom (sm_chatId data))) [])
               \<longrightarrow> (ToRoom (userRoom p), ChatUpdated (sm_chatId data) pm)
                     \<in> set (r_out (handleSendMessage B newId now now' env io db sock data)))
         \<and> (ToRoom (userRoom (senderString sock)), ChatUpdated (sm_chatId data) pm)
             \<notin> set (r_out (handleSendMessage B newId now now' env io db sock data))"
  using assms
  by (auto simp add: handleSendMessage_def Let_def userRoom_def
      split: if_splits sum.splits option.splits prod.splits)

text \<open>
  The scenario of the specification: both users are participants, the first has joined
  the room and sends \<open>hello\<close>; the second, who has not, is sent \<open>chat_updated\<close>.
\<close>

theorem sendMessage_notifies_absent_others_witness:
  "(ToRoom (chatRoom idC), NewMessage idC pmM)
      \<in> set (r_out (handleSendMessage hexBson idM 1000 1001 env0 io1 db0 sockS1 dataHello))
   \<and> idU2 \<in> set (c_participants chatC)
   \<and> idU2 \<noteq> senderString sockS1
   \<and> idU2 \<notin> set (userIdsInRoom (io_sockets io1) (io_rooms io1 (chatRoom idC)) [])
   \<and> (ToRoom (userRoom idU2), ChatUpdated idC pmM)
      \<in> set (r_out (handleSendMessage hexBson idM 1000 1001 env0 io1 db0 sockS1 dataHello))"
proof -
  have h: "(ToRoom (chatRoom (sm_chatId dataHello)), NewMessage (sm_chatId dataHello) pmM)
      \<in> set (r_out (handleSendMessage hexBson idM 1000 1001 env0 io1 db0 sockS1 dataHello))"
    by (simp add: send_hello_io1) (simp add: dataHello_def)
  have g: "getForUser hexBson db0 (sm_chatId dataHello) (map_option ObjId (sock_user sockS1))
             = Inr (Some (chatC, None))"
    by (simp add: dataHello_def sockS1_def getForUser_C_U1)
  have p1: "idU2 \<in> set (c_participants chatC)"
    by (simp add: chatC_def)
  have p2: "idU2 \<noteq> senderString sockS1"
    by (simp add: senderString_def sockS1_def ids_neq)
  have p3: "idU2 \<notin> set (userIdsInRoom (io_sockets io1) (io_rooms io1 (chatRoom idC)) [])"
    by (simp add: inRoom_io1 ids_neq)
  from sendMessage_notifies_absent_others [OF h] g p1 p2 p3
  have "(ToRoom (userRoom idU2), ChatUpdated (sm_chatId dataHello) pmM)
      \<in> set (r_out (handleSendMessage hexBson idM 1000 1001 env0 io1 db0 sockS1 dataHello))"
    by (auto simp add: dataHello_def)
  moreover have "sm_chatId dataHello = idC"
    by (simp add: dataHello_def)
  ultimately show ?thesis
    using h p1 p2 p3 by simp
qed

subsection \<open>Creating a message\<close>

lemma find_findByIdAndUpdate:
  "find (\<lambda>c. c_id c = i) cs = Some c \<Longrightarrow>
   find (\<lambda>c. c_id c = i) (findByIdAndUpdate i mid at now cs)
     = Some (c\<lparr>c_lastMessage := Some mid, c_lastMessageAt := Some at, c_updatedAt := now\<rparr>)"
  by (induction cs) (auto split: if_splits)

lemma map_c_id_findByIdAndUpdate:
  "map c_id (findByIdAndUpdate i mid at now cs) = map c_id cs"
  by (induction cs) auto

text \<open>
  C8: when \<open>createMessage(chatId, senderId, content)\<close> succeeds with message \<open>m\<close> and
  the chat it names is in the store, then in the store it leaves the message is persisted
  and that chat, the one \<open>m\<close> belongs to, has \<open>lastMessage\<close> equal to the id of
  \<open>m\<close> and \<open>lastMessageAt\<close> equal to the creation time of \<open>m\<close>.
\<close>

theorem createMessage_advances_chat:
  assumes "createMessage B newId now now' db chatId senderId content = Inr (m, db')"
      and "find (\<lambda>c. c_id c = ObjectId B chatId) (chats db) = Some c"
  shows "m_id m = newId \<and> m_chat m = ObjectId B chatId \<and> m_createdAt m = now
         \<and> messages db' = messages db @ [m]
         \<and> (\<exists>c'. find (\<lambda>c. c_id c = m_chat m) (chats db') = Some c'
                \<and> c_lastMessage c' = Some (m_id m)
                \<and> c_lastMessageAt c' = Some (m_createdAt m)
                \<and> c_participants c' = c_participants c)"
  using assms find_findByIdAndUpdate [OF assms(2), of newId now now']
  by (auto simp add: createMessage_def newObjectId_def Let_def split: if_splits)

text \<open>The message \<open>hello\<close> in the sample chat.\<close>

theorem createMessage_advances_chat_witness:
  "createMessage hexBson idM 1000 1001 db0 idC idU1 ''hello'' = Inr (msgM, db1)
   \<and> find (\<lambda>c. c_id c = idC) (chats db0) = Some chatC
   \<and> find (\<lambda>c. c_id c = idC) (chats db1)
       = Some (chatC\<lparr>c_lastMessage := Some idM, c_lastMessageAt := Some 1000, c_updatedAt := 1001\<rparr>)
   \<and> m_id msgM = idM \<and> m_createdAt msgM = 1000"
proof -
  have f: "find (\<lambda>c. c_id c = ObjectId hexBson idC) (chats db0) = Some chatC"
    by (simp add: cast_ids db0_def chatC_def)
  show ?thesis
    using createMessage_advances_chat [OF createMessage_M f] f createMessage_M
    by (simp add: cast_ids db1_def db0_def chatC_def msgM_def)
qed

subsection \<open>Paging through the messages of a chat\<close>

lemma sorted_desc_sort_key:
  fixes xs :: "message list"
  shows "sorted_wrt (\<lambda>x y. m_createdAt y \<le> m_createdAt x) (sort_key (\<lambda>m. - m_createdAt m) xs)"
proof -
  have "sorted (map (\<lambda>m. - m_createdAt m) (sort_key (\<lambda>m. - m_createdAt m) xs))"
    by (rule sorted_sort_key)
  then show ?thesis
    by (simp add: sorted_map)
qed

lemma effective_limit: "1 \<le> nat (max 1 (min 200 l)) \<and> nat (max 1 (min 200 l)) \<le> 200"
  by auto

text \<open>
  C6: \<open>getMessagesForChat(chatId, limit, before?)\<close> fails with the error
  \<open>Invalid chatId format\<close> on a malformed \<open>chatId\<close>. Otherwise it returns the
  populated messages \<open>ms\<close>, where \<open>ms\<close> followed by some \<open>rest\<close> is an arrangement of
  exactly the stored messages of the chat (those created strictly before \<open>before\<close>, when
  it is given) by descending creation time, and \<open>ms\<close> is the first
  \<open>max 1 (min 200 limit)\<close> of them: newest first, never more than 200, and at least one
  when there is any.
\<close>

theorem getMessagesForChat_page:
  "(\<not> isValidObjectId B chatId \<longrightarrow>
      getMessagesForChat B db chatId limit before = Inl (Error ''Invalid chatId format''))
   \<and> (isValidObjectId B chatId \<longrightarrow>
        (\<exists>ms rest.
           getMessagesForChat B db chatId limit before = Inr (map (populateMessage db) ms)
         \<and> mset (ms @ rest)
             = mset (filter (\<lambda>m. m_chat m = ObjectId B chatId
                                  \<and> (\<forall>b. before = Some b \<longrightarrow> m_createdAt m < b)) (messages db))
         \<and> sorted_wrt (\<lambda>x y. m_createdAt y \<le> m_createdAt x) (ms @ rest)
         \<and> length ms
             = min (nat (max 1 (min 200 (case limit of None \<Rightarrow> 50 | Some l \<Rightarrow> l))))
                 (length (ms @ rest))
         \<and> length ms \<le> 200
         \<and> (ms = [] \<longrightarrow> rest = [])))"
proof (intro conjI impI)
  assume "\<not> isValidObjectId B chatId"
  then show "getMessagesForChat B db chatId limit before = Inl (Error ''Invalid chatId format'')"
    by (simp add: getMessagesForChat_def)
next
  assume v: "isValidObjectId B chatId"
  define q :: "message \<Rightarrow> bool" where "q = (\<lambda>m. m_chat m = ObjectId B chatId
                          \<and> (case before of None \<Rightarrow> True | Some b \<Rightarrow> m_createdAt m < b))"
  define k where "k = nat (max 1 (min 200 (case limit of None \<Rightarrow> 50 | Some l \<Rightarrow> l)))"
  define xs where "xs = sort_key (\<lambda>m. - m_createdAt m) (filter q (messages db))"
  have q_eq: "q = (\<lambda>m. m_chat m = ObjectId B chatId
                        \<and> (\<forall>b. before = Some b \<longrightarrow> m_createdAt m < b))"
    by (auto simp add: q_def split: option.splits)
  have k1: "1 \<le> k" and k200: "k \<le> 200"
    using effective_limit by (simp_all add: k_def)
  have r: "getMessagesForChat B db chatId limit before = Inr (map (populateMessage db) (take k xs))"
    using v by (simp add: getMessagesForChat_def Let_def q_def k_def xs_def)
  have m: "mset (take k xs @ drop k xs) = mset (filter q (messages db))"
    by (simp add: xs_def)
  have s: "sorted_wrt (\<lambda>x y. m_createdAt y \<le> m_createdAt x) (take k xs @ drop k xs)"
    by (simp add: xs_def sorted_desc_sort_key)
  have l: "length (take k xs) = min k (length (take k xs @ drop k xs))"
    by simp
  have e: "take k xs = [] \<longrightarrow> drop k xs = []"
    using k1 by (cases xs) auto
  have "length (take k xs) \<le> 200"
    using k200 by simp
  with r m s l e show "\<exists>ms rest.
           getMessagesForChat B db chatId limit before = Inr (map (populateMessage db) ms)
         \<and> mset (ms @ rest)
             = mset (filter (\<lambda>m. m_chat m = ObjectId B chatId
                                  \<and> (\<forall>b. before = Some b \<longrightarrow> m_createdAt m < b)) (messages db))
         \<and> sorted_wrt (\<lambda>x y. m_createdAt y \<le> m_createdAt x) (ms @ rest)
         \<and> length ms
             = min (nat (max 1 (min 200 (case limit of None \<Rightarrow> 50 | Some l \<Rightarrow> l))))
                 (length (ms @ rest))
         \<and> length ms \<le> 200
         \<and> (ms = [] \<longrightarrow> rest = [])"
    unfolding q_eq k_def by blast
qed

text \<open>
  Limits 2, 0 and 1000 (the last with \<open>before = 30\<close>) on the store with three messages,
  and a malformed chat id.
\<close>

theorem getMessagesForChat_page_witness:
  "map_sum id (map pm_id) (getMessagesForChat hexBson dbP idC (Some 2) None) = Inr [idN, idP]
   \<and> map_sum id (map pm_id) (getMessagesForChat hexBson dbP idC (Some 0) None) = Inr [idN]
   \<and> map_sum id (map pm_id) (getMessagesForChat hexBson dbP idC (Some 1000) (Some 30))
       = Inr [idP, idM]
   \<and> getMessagesForChat hexBson dbP ''not-an-id'' None None = Inl (Error ''Invalid chatId format'')"
proof -
  have a: "map_sum id (map pm_id) (getMessagesForChat hexBson dbP idC (Some 2) None)
             = Inr [idN, idP]"
    by (simp add: getMessagesForChat_def valid_ids cast_ids dbP_def sampleMessage_def
        populateMessage_def ids_neq)
  have b: "map_sum id (map pm_id) (getMessagesForChat hexBson dbP idC (Some 0) None) = Inr [idN]"
    by (simp add: getMessagesForChat_def valid_ids cast_ids dbP_def sampleMessage_def
        populateMessage_def ids_neq)
  have c: "map_sum id (map pm_id) (getMessagesForChat hexBson dbP idC (Some 1000) (Some 30))
             = Inr [idP, idM]"
    by (simp add: getMessagesForChat_def valid_ids cast_ids dbP_def sampleMessage_def
        populateMessage_def ids_neq)
  have d: "getMessagesForChat hexBson dbP ''not-an-id'' None None
             = Inl (Error ''Invalid chatId format'')"
    using getMessagesForChat_page [of hexBson "''not-an-id''" dbP None None] invalid_not_an_id
    by simp
  from a b c d show ?thesis by simp
qed

subsection \<open>Leaving a chat\<close>

lemma deleteOne_distinct:
  "distinct (map c_id cs) \<Longrightarrow> deleteOne i cs = filter (\<lambda>c. c_id c \<noteq> i) cs"
proof (induction cs)
  case Nil
  then show ?case by simp
next
  case (Cons c cs)
  show ?case
  proof (cases "c_id c = i")
    case True
    from Cons.prems have "c_id c \<notin> c_id ` set cs"
      by simp
    with True have "\<forall>x \<in> set cs. c_id x \<noteq> i"
      by (metis imageI)
    then have "filter (\<lambda>c. c_id c \<noteq> i) cs = cs"
      by (simp add: filter_id_conv)
    with True show ?thesis by simp
  next
    case False
    with Cons show ?thesis by simp
  qed
qed

lemma saveChat_distinct:
  "distinct (map c_id cs) \<Longrightarrow>
   saveChat d cs = map (\<lambda>c. if c_id c = c_id d then d else c) cs"
proof (induction cs)
  case Nil
  then show ?case by simp
next
  case (Cons c cs)
  show ?case
  proof (cases "c_id c = c_id d")
    case True
    from Cons.prems have "c_id c \<notin> c_id ` set cs"
      by simp
    with True have "\<forall>x \<in> set cs. c_id x \<noteq> c_id d"
      by (metis imageI)
    then have "map (\<lambda>c. if c_id c = c_id d then d else c) cs = cs"
      by (simp add: map_idI)
    with True show ?thesis by simp
  next
    case False
    with Cons show ?thesis by simp
  qed
qed

lemma map_c_id_saveChat: "map c_id (saveChat d cs) = map c_id cs"
  by (induction cs) auto

lemma find_c_id: "find (\<lambda>c. c_id c = i) cs = Some c \<Longrightarrow> c_id c = i \<and> c \<in> set cs"
  by (induction cs) (auto split: if_splits)

lemma getForUser_absent:
  assumes "\<forall>c \<in> set (chats db). c_id c \<noteq> ObjectId B chatId"
  shows "getForUser B db chatId uid \<noteq> Inr (Some pc)"
proof -
  have "find (\<lambda>c. c_id c = ObjectId B chatId \<and> Q c) (chats db) = None" for Q
    using assms by (auto simp add: find_None_iff)
  from this [of "\<lambda>c. True"] this
  show ?thesis
    by (auto simp add: getForUser_def Let_def newObjectId_def
        split: option.splits id_arg.splits sum.splits if_splits)
qed

lemma filter_neq_remove1:
  "distinct ps \<Longrightarrow> filter (\<lambda>q. q \<noteq> p) ps = remove1 p ps"
  by (induction ps) (auto simp add: filter_id_conv)

lemma remove1_nonempty: "p \<in> set ps \<Longrightarrow> ps \<noteq> [p] \<Longrightarrow> remove1 p ps \<noteq> []"
  by (cases ps) (auto split: if_splits)

lemma length_remove1_Suc: "p \<in> set ps \<Longrightarrow> length (remove1 p ps) + 1 = length ps"
  by (induction ps) auto

lemma leave_absent:
  assumes "isValidObjectId B chatId"
      and "find (\<lambda>c. c_id c = ObjectId B chatId) (chats db) = None"
  shows "leave B now db chatId p = Inr (Noop, db)"
  using assms by (simp add: leave_def)

lemma leave_not_participant:
  assumes "isValidObjectId B chatId"
      and "find (\<lambda>c. c_id c = ObjectId B chatId) (chats db) = Some chat"
      and "c_participants chat \<noteq> []" and "p \<notin> set (c_participants chat)"
  shows "leave B now db chatId p = Inr (Noop, db)"
proof -
  have "filter (\<lambda>q. q \<noteq> p) (c_participants chat) = c_participants chat"
    using assms(4) by (auto simp add: filter_id_conv)
  then show ?thesis
    using assms(1,2,3) by (simp add: leave_def Let_def)
qed

lemma leave_left:
  assumes "isValidObjectId B chatId" and "distinct (map c_id (chats db))"
      and "find (\<lambda>c. c_id c = ObjectId B chatId) (chats db) = Some chat"
      and "distinct (c_participants chat)"
      and "p \<in> set (c_participants chat)" and "c_participants chat \<noteq> [p]"
  shows "leave B now db chatId p
           = Inr (Left_chat,
                  db\<lparr>chats := map (\<lambda>c. if c_id c = c_id chat
                                        then chat\<lparr>c_participants := remove1 p (c_participants chat),
                                                  c_updatedAt := now\<rparr>
                                        else c) (chats db)\<rparr>)"
proof -
  let ?ps = "filter (\<lambda>q. q \<noteq> p) (c_participants chat)"
  have r: "?ps = remove1 p (c_participants chat)"
    using assms(4) by (rule filter_neq_remove1)
  have "remove1 p (c_participants chat) \<noteq> []"
    using assms(5,6) by (rule remove1_nonempty)
  then have ne: "length ?ps \<noteq> 0"
    using r by simp
  have lt: "length ?ps \<noteq> length (c_participants chat)"
    using length_remove1_Suc [OF assms(5)] r by simp
  have "saveChat (chat\<lparr>c_participants := ?ps, c_updatedAt := now\<rparr>) (chats db)
          = map (\<lambda>c. if c_id c = c_id chat
                      then chat\<lparr>c_participants := ?ps, c_updatedAt := now\<rparr> else c) (chats db)"
    using saveChat_distinct [OF assms(2), of "chat\<lparr>c_participants := ?ps, c_updatedAt := now\<rparr>"]
    by simp
  then show ?thesis
    using assms(1,3) ne lt r by (simp add: leave_def Let_def)
qed

lemma leave_deleted:
  assumes "isValidObjectId B chatId" and "distinct (map c_id (chats db))"
      and "find (\<lambda>c. c_id c = ObjectId B chatId) (chats db) = Some chat"
      and "c_participants chat = [p]"
  shows "leave B now db chatId p
           = Inr (Deleted_chat, db\<lparr>chats := filter (\<lambda>c. c_id c \<noteq> c_id chat) (chats db)\<rparr>)"
    and "getForUser B (db\<lparr>chats := filter (\<lambda>c. c_id c \<noteq> c_id chat) (chats db)\<rparr>) chatId uid
           \<noteq> Inr (Some pc)"
proof -
  show "leave B now db chatId p
           = Inr (Deleted_chat, db\<lparr>chats := filter (\<lambda>c. c_id c \<noteq> c_id chat) (chats db)\<rparr>)"
    using assms(1,3,4) deleteOne_distinct [OF assms(2)] by (simp add: leave_def Let_def)
  have "c_id chat = ObjectId B chatId"
    using find_c_id [OF assms(3)] by simp
  then show "getForUser B (db\<lparr>chats := filter (\<lambda>c. c_id c \<noteq> c_id chat) (chats db)\<rparr>) chatId uid
           \<noteq> Inr (Some pc)"
    by (intro getForUser_absent) simp
qed

lemma leave_keeps_ids:
  assumes "leave B now db chatId p = Inr (r, db')" and "r \<noteq> Deleted_chat"
  shows "map c_id (chats db') = map c_id (chats db)"
  using assms
  by (auto simp add: leave_def Let_def map_c_id_saveChat split: if_splits option.splits)

lemma createChatDoc_appends:
  "createChatDoc newId t db name ps = Inr (c, db') \<Longrightarrow> chats db' = chats db @ [c] \<and> c_participants c = ps \<and> c_id c = newId"
  by (auto simp add: createChatDoc_def Let_def split: if_splits)

lemma createPair_appends:
  assumes "createPair B newId t db a b name = Inr (c, db')"
  shows "chats db' = chats db @ [c]"
  using assms
  by (auto simp add: createPair_def dest: createChatDoc_appends
      split: option.splits sum.splits if_splits)

lemma createMessage_keeps_ids:
  assumes "createMessage B newId t t' db cid sid content = Inr (m, db')"
  shows "map c_id (chats db') = map c_id (chats db)"
  using assms
  by (auto simp add: createMessage_def Let_def map_c_id_findByIdAndUpdate
      split: sum.splits if_splits)

text \<open>
  C7: \<open>leave(C, p)\<close>, in a store whose chats have distinct ids, for a chat whose
  participants are distinct and not empty (the invariants of the data model). When no
  chat has the id, or \<open>p\<close> is not a participant, the result is \<open>noop\<close> and the store
  is unchanged. When \<open>p\<close> is a participant and not the only one, the result is
  \<open>left\<close>: the chat is stored with one occurrence of \<open>p\<close> removed, its participants
  one fewer and not empty, and \<open>updatedAt\<close> set to the current time. When \<open>p\<close> is the
  only participant, the result is \<open>deleted\<close>: the chat is removed from the store and
  \<open>getForUser\<close> returns it for no user. No other outcome of \<open>leave\<close>, and neither
  \<open>createPair\<close> nor \<open>createMessage\<close>, removes a chat from the store.
\<close>

theorem leave_outcomes:
  assumes "isValidObjectId B chatId" and "distinct (map c_id (chats db))"
  shows "(find (\<lambda>c. c_id c = ObjectId B chatId) (chats db) = None
            \<longrightarrow> leave B now db chatId p = Inr (Noop, db))
       \<and> (\<forall>chat. find (\<lambda>c. c_id c = ObjectId B chatId) (chats db) = Some chat
                 \<and> c_participants chat \<noteq> [] \<and> distinct (c_participants chat) \<longrightarrow>
             (p \<notin> set (c_participants chat) \<longrightarrow> leave B now db chatId p = Inr (Noop, db))
           \<and> (p \<in> set (c_participants chat) \<and> c_participants chat \<noteq> [p] \<longrightarrow>
                leave B now db chatId p
                  = Inr (Left_chat,
                         db\<lparr>chats := map (\<lambda>c. if c_id c = c_id chat
                                               then chat\<lparr>c_participants := remove1 p (c_participants chat),
                                                         c_updatedAt := now\<rparr>
                                               else c) (chats db)\<rparr>)
                \<and> remove1 p (c_participants chat) \<noteq> []
                \<and> length (remove1 p (c_participants chat)) + 1 = length (c_participants chat))
           \<and> (c_participants chat = [p] \<longrightarrow>
                leave B now db chatId p
                  = Inr (Deleted_chat, db\<lparr>chats := filter (\<lambda>c. c_id c \<noteq> c_id chat) (chats db)\<rparr>)
                \<and> (\<forall>uid pc. getForUser B (db\<lparr>chats := filter (\<lambda>c. c_id c \<noteq> c_id chat) (chats db)\<rparr>)
                               chatId uid \<noteq> Inr (Some pc))))
       \<and> (\<forall>r db'. leave B now db chatId p = Inr (r, db') \<and> r \<noteq> Deleted_chat
                 \<longrightarrow> map c_id (chats db') = map c_id (chats db))
       \<and> (\<forall>newId t a b name c db'. createPair B newId t db a b name = Inr (c, db')
                 \<longrightarrow> chats db' = chats db @ [c])
       \<and> (\<forall>newId t t' cid sid content m db'.
             createMessage B newId t t' db cid sid content = Inr (m, db')
                 \<longrightarrow> map c_id (chats db') = map c_id (chats db))"
proof (intro conjI allI impI)
  show "leave B now db chatId p = Inr (Noop, db)"
    if "find (\<lambda>c. c_id c = ObjectId B chatId) (chats db) = None"
    using assms(1) that by (rule leave_absent)
next
  fix chat
  assume h: "find (\<lambda>c. c_id c = ObjectId B chatId) (chats db) = Some chat
             \<and> c_participants chat \<noteq> [] \<and> distinct (c_participants chat)"
  show "leave B now db chatId p = Inr (Noop, db)" if "p \<notin> set (c_participants chat)"
    using assms(1) h that by (simp add: leave_not_participant)
  {
    assume q: "p \<in> set (c_participants chat) \<and> c_participants chat \<noteq> [p]"
    show "leave B now db chatId p
            = Inr (Left_chat,
                   db\<lparr>chats := map (\<lambda>c. if c_id c = c_id chat
                                         then chat\<lparr>c_participants := remove1 p (c_participants chat),
                                                   c_updatedAt := now\<rparr>
                                         else c) (chats db)\<rparr>)"
      using assms h q by (simp add: leave_left)
    show "length (remove1 p (c_participants chat)) + 1 = length (c_participants chat)"
      using length_remove1_Suc [of p "c_participants chat"] q by simp
    show "remove1 p (c_participants chat) \<noteq> []"
      using q by (simp add: remove1_nonempty)
  }
  {
    assume d: "c_participants chat = [p]"
    show "leave B now db chatId p
            = Inr (Deleted_chat, db\<lparr>chats := filter (\<lambda>c. c_id c \<noteq> c_id chat) (chats db)\<rparr>)"
      using assms h d by (simp add: leave_deleted(1))
    show "getForUser B (db\<lparr>chats := filter (\<lambda>c. c_id c \<noteq> c_id chat) (chats db)\<rparr>) chatId uid
            \<noteq> Inr (Some pc)" for uid pc
      using assms h d by (simp add: leave_deleted(2))
  }
next
  show "map c_id (chats db') = map c_id (chats db)"
    if "leave B now db chatId p = Inr (r, db') \<and> r \<noteq> Deleted_chat" for r db'
    using that leave_keeps_ids by blast
next
  show "chats db' = chats db @ [c]"
    if "createPair B newId t db a b name = Inr (c, db')" for newId t a b name c db'
    using that by (rule createPair_appends)
next
  show "map c_id (chats db') = map c_id (chats db)"
    if "createMessage B newId t t' db cid sid content = Inr (m, db')"
    for newId t t' cid sid content m db'
    using that by (rule createMessage_keeps_ids)
qed

text \<open>
  An absent chat; a user who is not a participant; the first user leaves the sample chat;
  then the second, the last participant, leaves it.
\<close>

theorem leave_outcomes_witness:
  "leave hexBson 2000 db0 idD idU1 = Inr (Noop, db0)
   \<and> leave hexBson 2000 db0 idC idU3 = Inr (Noop, db0)
   \<and> leave hexBson 2000 db0 idC idU1 = Inr (Left_chat, dbL)
   \<and> leave hexBson 3000 dbL idC idU2 = Inr (Deleted_chat, db0\<lparr>chats := []\<rparr>)
   \<and> getForUser hexBson (db0\<lparr>chats := []\<rparr>) idC (Some (ObjId idU2)) = Inr None"
proof -
  have d0: "distinct (map c_id (chats db0))" and dL: "distinct (map c_id (chats dbL))"
    by (simp_all add: db0_def dbL_def)
  have f0: "find (\<lambda>c. c_id c = ObjectId hexBson idC) (chats db0) = Some chatC"
    by (simp add: cast_ids db0_def chatC_def)
  have fL: "find (\<lambda>c. c_id c = ObjectId hexBson idC) (chats dbL)
              = Some (chatC\<lparr>c_participants := [idU2], c_updatedAt := 2000\<rparr>)"
    by (simp add: cast_ids dbL_def chatC_def)
  have fD: "find (\<lambda>c. c_id c = ObjectId hexBson idD) (chats db0) = None"
    by (simp add: cast_ids db0_def chatC_def ids_neq)
  have a: "leave hexBson 2000 db0 idD idU1 = Inr (Noop, db0)"
    using leave_outcomes [OF valid_ids(5) d0, of 2000 idU1] fD by simp
  have b: "leave hexBson 2000 db0 idC idU3 = Inr (Noop, db0)"
    using leave_outcomes [OF valid_ids(4) d0, of 2000 idU3] f0
    by (simp add: chatC_def ids_neq)
  have c: "leave hexBson 2000 db0 idC idU1 = Inr (Left_chat, dbL)"
    using leave_outcomes [OF valid_ids(4) d0, of 2000 idU1] f0
    by (simp add: chatC_def ids_neq dbL_def db0_def)
  have d: "leave hexBson 3000 dbL idC idU2 = Inr (Deleted_chat, db0\<lparr>chats := []\<rparr>)"
    using leave_outcomes [OF valid_ids(4) dL, of 3000 idU2] fL
    by (simp add: chatC_def dbL_def db0_def)
  have e: "getForUser hexBson (db0\<lparr>chats := []\<rparr>) idC (Some (ObjId idU2)) = Inr None"
    by (simp add: getForUser_def valid_ids)
  from a b c d e show ?thesis by simp
qed

subsection \<open>Uniqueness of direct chats\<close>

lemma mapObjectId_pair:
  assumes "isValidObjectId B a" "ObjectId B a = a" "isValidObjectId B b" "ObjectId B b = b" "a \<noteq> b"
  shows "mapObjectId B (fromSet [a, b]) = Inr [a, b]"
  using assms by (simp add: newObjectId_def)

lemma createPair_no_dedup:
  assumes "isValidObjectId B a" "ObjectId B a = a" "isValidObjectId B b" "ObjectId B b = b" "a \<noteq> b"
      and "createPair B newId now db (Some a) (Some b) name = Inr (c, db')"
  shows "chats db' = chats db @ [c] \<and> c_participants c = [a, b] \<and> c_id c = newId"
  using assms(6) mapObjectId_pair [OF assms(1-5)]
  by (auto simp add: createPair_def dest: createChatDoc_appends)

lemma createPair_fresh:
  assumes "isValidObjectId B a" "ObjectId B a = a" "isValidObjectId B b" "ObjectId B b = b" "a \<noteq> b"
      and "newId \<notin> set (map c_id (chats db))"
  shows "\<exists>c db'. createPair B newId now db (Some a) (Some b) name = Inr (c, db')"
  using assms(6) mapObjectId_pair [OF assms(1-5)]
  by (simp add: createPair_def createChatDoc_def Let_def)

lemma find_filter_unique:
  assumes "length (filter P xs) \<le> 1" and "find P xs = Some x"
  shows "filter P xs = [x]"
proof -
  from assms(2) have "x \<in> set (filter P xs)"
    by (auto simp add: find_Some_iff)
  with assms(1) show ?thesis
    by (cases "filter P xs") auto
qed

lemma find_None_filter: "find P xs = None \<Longrightarrow> filter P xs = []"
  by (auto simp add: find_None_iff filter_empty_conv)

lemma createPair_C:
  "createPair hexBson idC 100 (db0\<lparr>chats := []\<rparr>) (Some idU1) (Some idU2) None = Inr (chatC, db0)"
  by (simp add: createPair_def newObjectId_def valid_ids cast_ids ids_neq createChatDoc_def
      Let_def db0_def chatC_def)

lemma createPair_D:
  "createPair hexBson idD 200 db0 (Some idU1) (Some idU2) None
     = Inr (chatD, db0\<lparr>chats := [chatC, chatD]\<rparr>)"
  by (simp add: createPair_def newObjectId_def valid_ids cast_ids ids_neq createChatDoc_def
      Let_def db0_def chatC_def chatD_def)

text \<open>
  C3, as the claim states it, fails: on a store with no chats, \<open>createPair\<close> for the
  first and the second user succeeds twice, and the store then holds two chats, with
  different ids, whose participants are exactly those two users.
\<close>

theorem createPair_twice_duplicates:
  "createPair hexBson idC 100 (db0\<lparr>chats := []\<rparr>) (Some idU1) (Some idU2) None = Inr (chatC, db0)
   \<and> createPair hexBson idD 200 db0 (Some idU1) (Some idU2) None
       = Inr (chatD, db0\<lparr>chats := [chatC, chatD]\<rparr>)
   \<and> c_id chatC \<noteq> c_id chatD
   \<and> idU1 \<noteq> idU2
   \<and> set (c_participants chatC) = {idU1, idU2}
   \<and> set (c_participants chatD) = {idU1, idU2}"
  by (simp add: createPair_C createPair_D ids_neq) (simp add: chatC_def chatD_def ids_neq)

text \<open>
  C3, amended: \<open>createPair\<close> does not look for an existing chat: for distinct
  identities \<open>a\<close> and \<open>b\<close> every successful call appends a new chat with participants
  \<open>a, b\<close>. Uniqueness of the direct chat is kept by the caller's find-then-create,
  \<open>createChat\<close>: when nothing else writes to the store between its find and its create
  and the store holds at most one direct chat of \<open>a\<close> and \<open>b\<close>, it still holds at
  most one afterwards, and on success (status 200 or 201) exactly one, the chat returned.
  The ids are ones the library accepts and casts to themselves.
\<close>

theorem createChat_keeps_pair_unique:
  assumes "isValidObjectId B a" and "ObjectId B a = a"
      and "isValidObjectId B b" and "ObjectId B b = b" and "a \<noteq> b"
  shows "(\<forall>c db'. createPair B newId now db (Some a) (Some b) name = Inr (c, db')
            \<longrightarrow> chats db' = chats db @ [c] \<and> c_participants c = [a, b])
       \<and> (\<forall>res db'. afterLookup env db = db
               \<and> length (filter (isDirectPair a b) (chats db)) \<le> 1
               \<and> createChat B newId now env db (Some a) (Some (ObjId b)) name = (res, db')
            \<longrightarrow> length (filter (isDirectPair a b) (chats db')) \<le> 1
              \<and> (res_status res = 200 \<or> res_status res = 201
                   \<longrightarrow> (\<exists>c. res_body res = ChatBody c
                            \<and> filter (isDirectPair a b) (chats db') = [c])))"
proof -
  have store: "chats db' = chats db @ [c] \<and> c_participants c = [a, b]"
    if "createPair B newId now db (Some a) (Some b) name = Inr (c, db')" for c db'
    using createPair_no_dedup [OF assms that] by simp
  have ab: "idString (ObjId b) \<noteq> a"
    using assms(5) by (auto simp add: idString_def)
  have caller: "length (filter (isDirectPair a b) (chats db')) \<le> 1
        \<and> (res_status res = 200 \<or> res_status res = 201
             \<longrightarrow> (\<exists>c. res_body res = ChatBody c \<and> filter (isDirectPair a b) (chats db') = [c]))"
    if h: "afterLookup env db = db
             \<and> length (filter (isDirectPair a b) (chats db)) \<le> 1
             \<and> createChat B newId now env db (Some a) (Some (ObjId b)) name = (res, db')"
    for res db'
  proof (cases "find (isDirectPair a b) (chats db)")
    case (Some existing)
    with h ab have "res = \<lparr>res_status = 200, res_body = ChatBody existing\<rparr>" and "db' = db"
      by (auto simp add: createChat_def asObjectId_def findDirectPair_def)
    moreover have "filter (isDirectPair a b) (chats db) = [existing]"
      using h Some by (simp add: find_filter_unique)
    ultimately show ?thesis by simp
  next
    case None
    then have empty: "filter (isDirectPair a b) (chats db) = []"
      by (rule find_None_filter)
    show ?thesis
    proof (cases "createPair B newId now db (Some a) (Some b) name")
      case (Inl e)
      with h ab None have "res = \<lparr>res_status = 500, res_body = ErrorBody e\<rparr>" and "db' = db"
        by (auto simp add: createChat_def asObjectId_def findDirectPair_def Let_def)
      with h show ?thesis by simp
    next
      case (Inr r)
      obtain c db'' where r: "r = (c, db'')" by (cases r)
      with Inr h ab None have res: "res = \<lparr>res_status = 201, res_body = ChatBody c\<rparr>" and "db' = db''"
        by (auto simp add: createChat_def asObjectId_def findDirectPair_def Let_def)
      moreover from createPair_no_dedup [OF assms] Inr r
      have "chats db'' = chats db @ [c]" and "c_participants c = [a, b]"
        by simp_all
      moreover have "isDirectPair a b c"
        using \<open>c_participants c = [a, b]\<close> by (simp add: isDirectPair_def)
      ultimately show ?thesis
        using empty by simp
    qed
  qed
  from store caller show ?thesis
    by blast
qed

text \<open>
  \<open>createChat\<close> for the two users of the sample chat returns that chat and creates
  nothing; for the first and the third user it creates the one direct chat of theirs.
\<close>

theorem createChat_keeps_pair_unique_witness:
  "createChat hexBson idD 200 env0 db0 (Some idU1) (Some (ObjId idU2)) None
     = (\<lparr>res_status = 200, res_body = ChatBody chatC\<rparr>, db0)
   \<and> filter (isDirectPair idU1 idU2) (chats db0) = [chatC]
   \<and> createChat hexBson idD 200 env0 db0 (Some idU1) (Some (ObjId idU3)) None
     = (\<lparr>res_status = 201, res_body = ChatBody chatE\<rparr>, db0\<lparr>chats := [chatC, chatE]\<rparr>)
   \<and> filter (isDirectPair idU1 idU3) [chatC, chatE] = [chatE]"
proof -
  have e: "afterLookup env0 db0 = db0"
    by (simp add: env0_def)
  have pairC: "isDirectPair idU1 idU2 chatC" and npairC: "\<not> isDirectPair idU1 idU3 chatC"
    by (simp_all add: isDirectPair_def chatC_def ids_neq)
  have one: "length (filter (isDirectPair idU1 idU2) (chats db0)) \<le> 1"
    and none: "length (filter (isDirectPair idU1 idU3) (chats db0)) \<le> 1"
    by (simp_all add: db0_def)
  have r2: "createChat hexBson idD 200 env0 db0 (Some idU1) (Some (ObjId idU2)) None
              = (\<lparr>res_status = 200, res_body = ChatBody chatC\<rparr>, db0)"
    using pairC
    by (simp add: createChat_def idString_def asObjectId_def findDirectPair_def ids_neq db0_def)
  have r3: "createChat hexBson idD 200 env0 db0 (Some idU1) (Some (ObjId idU3)) None
              = (\<lparr>res_status = 201, res_body = ChatBody chatE\<rparr>, db0\<lparr>chats := [chatC, chatE]\<rparr>)"
    using npairC
    by (simp add: createChat_def idString_def asObjectId_def findDirectPair_def ids_neq env0_def
        createPair_def newObjectId_def valid_ids cast_ids createChatDoc_def Let_def db0_def
        chatE_def)
       (simp add: chatC_def ids_neq)
  have f2: "filter (isDirectPair idU1 idU2) (chats db0) = [chatC]"
    using createChat_keeps_pair_unique [OF valid_ids(1) cast_ids(1) valid_ids(2) cast_ids(2)
        ids_neq(1), of idD 200 db0 None env0] e one r2
    by auto
  have f3: "filter (isDirectPair idU1 idU3) [chatC, chatE] = [chatE]"
    using createChat_keeps_pair_unique [OF valid_ids(1) cast_ids(1) valid_ids(3) cast_ids(3)
        ids_neq(3), of idD 200 db0 None env0] e none r3
    by auto
  from r2 f2 r3 f3 show ?thesis by simp
qed

subsection \<open>The invariants of the store\<close>

text \<open>
  The operations that write chats keep \<open>storeInvariant\<close>: the hypotheses of the
  property of \<open>leave\<close> hold in every store these operations build.
\<close>

lemma set_deleteOne: "set (deleteOne i cs) \<subseteq> set cs"
  by (induction cs) auto

lemma distinct_deleteOne: "distinct (map c_id cs) \<Longrightarrow> distinct (map c_id (deleteOne i cs))"
  by (simp add: deleteOne_distinct distinct_map_filter)

lemma set_saveChat: "set (saveChat d cs) \<subseteq> insert d (set cs)"
  by (induction cs) auto

lemma participants_findByIdAndUpdate:
  "c \<in> set (findByIdAndUpdate i mid at now cs) \<Longrightarrow>
   \<exists>c0 \<in> set cs. c_participants c = c_participants c0"
  by (induction cs) (auto split: if_splits)

lemma leave_invariant:
  assumes "storeInvariant db" and "leave B now db chatId p = Inr (r, db')"
  shows "storeInvariant db'"
proof (cases "find (\<lambda>c. c_id c = ObjectId B chatId) (chats db)")
  case None
  with assms show ?thesis
    by (auto simp add: leave_def split: if_splits)
next
  case (Some chat)
  let ?ps = "filter (\<lambda>q. q \<noteq> p) (c_participants chat)"
  have chat: "chat \<in> set (chats db)"
    using find_c_id [OF Some] by simp
  then have dps: "distinct ?ps"
    using assms(1) by (simp add: storeInvariant_def)
  consider (deleted) "r = Deleted_chat" "db' = db\<lparr>chats := deleteOne (c_id chat) (chats db)\<rparr>"
    | (left) "r = Left_chat" "?ps \<noteq> []"
        "db' = db\<lparr>chats := saveChat (chat\<lparr>c_participants := ?ps, c_updatedAt := now\<rparr>) (chats db)\<rparr>"
    | (noop) "db' = db"
    using assms(2) Some by (auto simp add: leave_def Let_def split: if_splits)
  then show ?thesis
  proof cases
    case deleted
    then show ?thesis
      using assms(1) set_deleteOne [of "c_id chat" "chats db"]
      by (auto simp add: storeInvariant_def distinct_deleteOne)
  next
    case left
    then show ?thesis
      using assms(1) dps
        set_saveChat [of "chat\<lparr>c_participants := ?ps, c_updatedAt := now\<rparr>" "chats db"]
      by (auto simp add: storeInvariant_def map_c_id_saveChat)
  next
    case noop
    with assms(1) show ?thesis by simp
  qed
qed

lemma createMessage_invariant:
  assumes "storeInvariant db" and "createMessage B newId t t' db cid sid content = Inr (m, db')"
  shows "storeInvariant db'"
proof -
  have ids: "map c_id (chats db') = map c_id (chats db)"
    using assms(2) by (rule createMessage_keeps_ids)
  have "\<exists>c0 \<in> set (chats db). c_participants c = c_participants c0" if "c \<in> set (chats db')" for c
    using assms(2) that
    by (auto simp add: createMessage_def Let_def split: sum.splits if_splits
        dest: participants_findByIdAndUpdate)
  with assms(1) ids show ?thesis
    by (fastforce simp add: storeInvariant_def)
qed

lemma createPair_invariant:
  assumes "isValidObjectId B a" "ObjectId B a = a" "isValidObjectId B b" "ObjectId B b = b" "a \<noteq> b"
      and "storeInvariant db" and "createPair B newId now db (Some a) (Some b) name = Inr (c, db')"
  shows "storeInvariant db'"
proof -
  from createPair_no_dedup [OF assms(1-5) assms(7)]
  have c: "chats db' = chats db @ [c]" "c_participants c = [a, b]" "c_id c = newId"
    by simp_all
  have "newId \<notin> set (map c_id (chats db))"
    using assms(7) mapObjectId_pair [OF assms(1-5)]
    by (auto simp add: createPair_def createChatDoc_def split: if_splits)
  with c assms(5,6) show ?thesis
    by (auto simp add: storeInvariant_def)
qed

end
